theory Spec2Isabelle
  imports Main "HOL-Library.Sublist"
begin

section \<open>TaskFlow frontend (src/frontend/app.js): a shallow embedding\<close>

text \<open>
  The module keeps one mutable \<open>state\<close> object and a table \<open>DOM\<close> of page elements; its
  handlers read and write both and talk to the task service through \<open>fetch\<close>. Here the two
  objects are records, a handler is a function from the pair of them to the new pair, and an
  \<open>async\<close> handler also returns the requests it sent, each with the page as it stood while
  that request was in flight. What the network answers is an argument of the handler.

  A JavaScript string is a \<open>string\<close>: the list of the bytes of its UTF-8 encoding. The
  characters the program tests for (\<open>&\<close>, \<open><\<close>, \<open>>\<close>, the quotes, the white space of
  \<open>trim\<close>) are found bytewise in that encoding, because no byte of a multi-byte sequence is
  an ASCII byte and a sequence never ends inside another one.
\<close>

subsection \<open>Strings\<close>

text \<open>\<open>s.replace(/c/g, r)\<close> for a one-character pattern \<open>c\<close> and a replacement without \<open>$\<close>.\<close>

definition replaceAll :: "char \<Rightarrow> string \<Rightarrow> string \<Rightarrow> string" where
  "replaceAll c r s = concat (map (\<lambda>x. if x = c then r else [x]) s)"

text \<open>
  The white space of \<open>String.prototype.trim\<close> (ECMAScript WhiteSpace and LineTerminator):
  U+0009 to U+000D, U+0020, U+00A0, U+1680, U+2000 to U+200A, U+2028, U+2029, U+202F, U+205F,
  U+3000 and U+FEFF, each as its UTF-8 bytes.
\<close>

definition white_space :: "string list" where
  "white_space =
     [[CHR 0x09], [CHR 0x0A], [CHR 0x0B], [CHR 0x0C], [CHR 0x0D], [CHR 0x20],
      [CHR 0xC2, CHR 0xA0],
      [CHR 0xE1, CHR 0x9A, CHR 0x80],
      [CHR 0xE2, CHR 0x80, CHR 0x80], [CHR 0xE2, CHR 0x80, CHR 0x81],
      [CHR 0xE2, CHR 0x80, CHR 0x82], [CHR 0xE2, CHR 0x80, CHR 0x83],
      [CHR 0xE2, CHR 0x80, CHR 0x84], [CHR 0xE2, CHR 0x80, CHR 0x85],
      [CHR 0xE2, CHR 0x80, CHR 0x86], [CHR 0xE2, CHR 0x80, CHR 0x87],
      [CHR 0xE2, CHR 0x80, CHR 0x88], [CHR 0xE2, CHR 0x80, CHR 0x89],
      [CHR 0xE2, CHR 0x80, CHR 0x8A],
      [CHR 0xE2, CHR 0x80, CHR 0xA8], [CHR 0xE2, CHR 0x80, CHR 0xA9],
      [CHR 0xE2, CHR 0x80, CHR 0xAF],
      [CHR 0xE2, CHR 0x81, CHR 0x9F],
      [CHR 0xE3, CHR 0x80, CHR 0x80],
      [CHR 0xEF, CHR 0xBB, CHR 0xBF]]"

text \<open>Removes, from the front of \<open>s\<close>, every leading occurrence of one of the sequences \<open>ws\<close>.\<close>

function strip :: "string list \<Rightarrow> string \<Rightarrow> string" where
  "strip ws s =
     (case List.find (\<lambda>w. w \<noteq> [] \<and> take (length w) s = w) ws of
        None \<Rightarrow> s
      | Some w \<Rightarrow> strip ws (drop (length w) s))"
  by pat_completeness auto
termination
proof (relation "measure (\<lambda>(ws, s). length s)")
  show "wf (measure (\<lambda>(ws, s). length s))" by simp
next
  fix ws :: "string list" and s w :: string
  assume "List.find (\<lambda>w. w \<noteq> [] \<and> take (length w) s = w) ws = Some w"
  then have w: "w \<noteq> []" and t: "take (length w) s = w"
    by (auto simp: find_Some_iff)
  from t have "length (take (length w) s) = length w"
    by simp
  then have "length w \<le> length s"
    by simp
  with w have "length (drop (length w) s) < length s"
    by (cases w) auto
  then show "((ws, drop (length w) s), (ws, s)) \<in> measure (\<lambda>(ws, s). length s)"
    by simp
qed

declare strip.simps [simp del]

text \<open>\<open>s.trim()\<close>: the white space is removed at the front, then at the end.\<close>

definition trim :: "string \<Rightarrow> string" where
  "trim s = rev (strip (map rev white_space) (rev (strip white_space s)))"

text \<open>The decimal digits of a number, as a template literal prints an integer.\<close>

function show_nat :: "nat \<Rightarrow> string" where
  "show_nat n =
     (if n < 10 then [char_of (48 + n)]
      else show_nat (n div 10) @ [char_of (48 + n mod 10)])"
  by pat_completeness auto
termination
  by (relation "measure (\<lambda>n. n)") auto

declare show_nat.simps [simp del]

text \<open>The characters outside ASCII that the source writes in its literals.\<close>

definition check_mark :: string where
  "check_mark = [CHR 0xE2, CHR 0x9C, CHR 0x93]"

definition cross_mark :: string where
  "cross_mark = [CHR 0xE2, CHR 0x9C, CHR 0x95]"

definition info_mark :: string where
  "info_mark = [CHR 0xE2, CHR 0x84, CHR 0xB9]"

definition party_popper :: string where
  "party_popper = [CHR 0xF0, CHR 0x9F, CHR 0x8E, CHR 0x89]"

definition ellipsis :: string where
  "ellipsis = [CHR 0xE2, CHR 0x80, CHR 0xA6]"

definition green_circle :: string where
  "green_circle = [CHR 0xF0, CHR 0x9F, CHR 0x9F, CHR 0xA2]"

definition yellow_circle :: string where
  "yellow_circle = [CHR 0xF0, CHR 0x9F, CHR 0x9F, CHR 0xA1]"

definition red_circle :: string where
  "red_circle = [CHR 0xF0, CHR 0x9F, CHR 0x94, CHR 0xB4]"

subsection \<open>Data model\<close>

text \<open>
  A task as the service sends it (\<open>TaskOut\<close>). \<open>description\<close> and \<open>due_date\<close> are \<open>None\<close> when
  the field is \<open>null\<close> or missing. The identifier is a number; the handlers test it for
  truthiness, so \<open>0\<close> is kept apart from the other values.
\<close>

record task =
  task_id :: int
  title :: string
  description :: "string option"
  status :: string
  priority :: string
  is_completed :: bool
  due_date :: "string option"

text \<open>The module's \<open>state\<close> object; \<open>null\<close> is \<open>None\<close>.\<close>

record state =
  tasks :: "task list"
  activeStatus :: string
  activePriority :: string
  editingId :: "int option"
  pendingDeleteId :: "int option"

text \<open>JavaScript truthiness of a value that is \<open>null\<close> or a number: \<open>null\<close> and \<open>0\<close> are falsy.\<close>

definition truthy_id :: "int option \<Rightarrow> bool" where
  "truthy_id v = (case v of None \<Rightarrow> False | Some i \<Rightarrow> i \<noteq> 0)"

text \<open>The object \<open>readForm\<close> returns, sent as the body of a create or update request.\<close>

record payload =
  p_title :: string
  p_description :: "string option"
  p_priority :: string
  p_due_date :: "string option"

subsection \<open>Requests and responses\<close>

text \<open>The three URL builders of \<open>API\<close>, without the base URL.\<close>

datatype path = TasksPath | TaskPath int | CompletePath int

text \<open>
  What \<open>fetch\<close> is called with: the HTTP verb, the URL, the entries of the query string in order, and the
  body before \<open>JSON.stringify\<close>.
\<close>

record request =
  http_method :: string
  url :: path
  query :: "(string \<times> string) list"
  body :: "payload option"

text \<open>
  A value decoded from JSON, as far as the program looks at it: a string, or another value
  given by its truthiness and by what \<open>String\<close> makes of it.
\<close>

datatype jsvalue = Str string | NonStr bool string

fun truthy :: "jsvalue \<Rightarrow> bool" where
  "truthy (Str s) = (s \<noteq> [])"
| "truthy (NonStr b s) = b"

fun ToString :: "jsvalue \<Rightarrow> string" where
  "ToString (Str s) = s"
| "ToString (NonStr b s) = s"

text \<open>
  A decoded response body: the value \<open>null\<close>, or another value as far as the program reads
  it, by \<open>data?.detail\<close> (the error shape) and \<open>res.data?.tasks\<close> (the list envelope). In
  these two \<open>None\<close> is \<open>undefined\<close> or \<open>null\<close>. On \<open>null\<close> itself \<open>data?.detail\<close> is
  \<open>undefined\<close>, while reading \<open>res.data\<close> throws. The value of \<open>tasks\<close>, when it is there,
  is typed as the service sends it (\<open>tasks: Task[]\<close>): an array of task objects. A reply
  whose \<open>tasks\<close> is anything else is outside this model.
\<close>

datatype decoded =
    JsonNull
  | JsonValue (detail: "jsvalue option") (data_tasks: "task list option")
where
  "detail JsonNull = None"
| "data_tasks JsonNull = None"

text \<open>The object \<open>{}\<close>.\<close>

definition empty_object :: decoded where
  "empty_object = JsonValue None None"

text \<open>A response: status line, and the body \<open>res.json()\<close> decodes (\<open>None\<close> when it rejects).\<close>

record response =
  res_status :: nat
  res_statusText :: string
  res_json :: "decoded option"

text \<open>\<open>res.ok\<close>: the status is in the range 200 to 299.\<close>

definition res_ok :: "response \<Rightarrow> bool" where
  "res_ok res = (200 \<le> res_status res \<and> res_status res \<le> 299)"

text \<open>What \<open>await fetch(url, config)\<close> gives: it rejects with an error, or resolves.\<close>

datatype fetch_result = Rejected string | Resolved response

text \<open>An \<open>Error\<close> object, by its \<open>message\<close>.\<close>

datatype js_error = Error (message: string)

text \<open>
  \<open>fetchJSON\<close>, from the point where \<open>fetch\<close> settles. A body that does not decode is taken
  as \<open>{}\<close>; the function throws when \<open>res.ok\<close> is false.
\<close>

definition fetchJSON :: "fetch_result \<Rightarrow> js_error + decoded" where
  "fetchJSON r =
     (case r of
        Rejected m \<Rightarrow> Inl (Error m)
      | Resolved res \<Rightarrow>
          (let data = (case res_json res of None \<Rightarrow> empty_object | Some d \<Rightarrow> d) in
           if \<not> res_ok res then
             (let msg =
                (case detail data of
                   Some v \<Rightarrow>
                     if truthy v then ToString v
                     else ''HTTP '' @ show_nat (res_status res) @ '': '' @ res_statusText res
                 | None \<Rightarrow>
                     ''HTTP '' @ show_nat (res_status res) @ '': '' @ res_statusText res)
              in Inl (Error msg))
           else Inr data))"

text \<open>
  The CRUD wrappers: the request each one hands to \<open>fetchJSON\<close>. A filter goes into the
  query string when it is truthy (a non-empty string) and is not \<open>"all"\<close>.
\<close>

definition apiGetTasks :: "string \<Rightarrow> string \<Rightarrow> request" where
  "apiGetTasks st pr =
     (let params = [];
          params = (if st \<noteq> [] \<and> st \<noteq> ''all'' then params @ [(''status'', st)] else params);
          params = (if pr \<noteq> [] \<and> pr \<noteq> ''all'' then params @ [(''priority'', pr)] else params)
      in \<lparr>http_method = ''GET'', url = TasksPath, query = params, body = None\<rparr>)"

definition apiCreateTask :: "payload \<Rightarrow> request" where
  "apiCreateTask p = \<lparr>http_method = ''POST'', url = TasksPath, query = [], body = Some p\<rparr>"

definition apiUpdateTask :: "int \<Rightarrow> payload \<Rightarrow> request" where
  "apiUpdateTask i p = \<lparr>http_method = ''PUT'', url = TaskPath i, query = [], body = Some p\<rparr>"

definition apiCompleteTask :: "int \<Rightarrow> request" where
  "apiCompleteTask i = \<lparr>http_method = ''PATCH'', url = CompletePath i, query = [], body = None\<rparr>"

definition apiDeleteTask :: "int \<Rightarrow> request" where
  "apiDeleteTask i = \<lparr>http_method = ''DELETE'', url = TaskPath i, query = [], body = None\<rparr>"

subsection \<open>Escaping\<close>

text \<open>\<open>escHtml\<close>; the argument is \<open>None\<close> for \<open>null\<close> and \<open>undefined\<close>, and \<open>""\<close> is falsy too.\<close>

definition escHtml :: "string option \<Rightarrow> string" where
  "escHtml str =
     (case str of
        None \<Rightarrow> []
      | Some s \<Rightarrow>
          if s = [] then []
          else replaceAll (CHR 0x27) ''&#39;''
                (replaceAll (CHR 0x22) ''&quot;''
                  (replaceAll CHR ''>'' ''&gt;''
                    (replaceAll CHR ''<'' ''&lt;''
                      (replaceAll CHR ''&'' ''&amp;'' s)))))"

subsection \<open>The page\<close>

text \<open>
  What the JavaScript runtime computes from a date string and the clock, the locale and the
  time zone: \<open>new Date(iso).toLocaleDateString(...)\<close> in \<open>formatDate\<close>,
  \<open>new Date(iso) < new Date()\<close> in \<open>isOverdue\<close>, \<open>new Date(due).toISOString()\<close> in
  \<open>readForm\<close>, and the value for a \<open>datetime-local\<close> input that \<open>populateForm\<close> derives
  with a second \<open>toISOString()\<close>. The first two never throw (an unparsable date prints as
  \<open>Invalid Date\<close> and is not in the past). \<open>toISOString()\<close> throws a \<open>RangeError\<close> when the
  date did not parse: the last two give \<open>Inl\<close> of that error then. \<open>read_of_null\<close> is the
  \<open>TypeError\<close> the engine throws when a property of \<open>null\<close> is read. The handlers take these
  as an argument.
\<close>

record runtime =
  toLocaleDateString :: "string \<Rightarrow> string"
  is_past :: "string \<Rightarrow> bool"
  toISOString :: "string \<Rightarrow> js_error + string"
  toLocalInput :: "string \<Rightarrow> js_error + string"
  read_of_null :: js_error

record chip =
  label :: string
  cls :: string

text \<open>
  A task card, by the parts of its markup that vary: the \<open>is-done\<close> class, the id written
  into \<open>data-task-id\<close> and \<open>data-id\<close>, the content of the title heading, the content of the
  description paragraph when there is one, the two chips, the due text with its \<open>overdue\<close>
  flag when there is one, and whether the Complete button is there.
\<close>

record card =
  card_done :: bool
  card_task_id :: int
  card_title :: string
  card_description :: "string option"
  card_status :: chip
  card_priority :: chip
  card_due :: "(string \<times> bool) option"
  card_complete_button :: bool

datatype toast_type = ToastSuccess | ToastError | ToastInfo

text \<open>A toast element: its class, and the icon and the text of its \<open>innerHTML\<close>.\<close>

record toast =
  toast_class :: toast_type
  toast_icon :: string
  toast_text :: string

text \<open>The four inputs of the task form that the program reads and writes.\<close>

record form =
  title_value :: string
  description_value :: string
  priority_value :: string
  dueDate_value :: string

datatype element = TitleInput

text \<open>
  The elements of \<open>DOM\<close>, by the properties the program sets or reads. \<open>form_defaults\<close> are
  the values \<open>form.reset()\<close> restores and \<open>confirmModal_hidden\<close> is the \<open>hidden\<close> property of
  the modal; both come from the page's HTML and the program never writes them. \<open>taskId_value\<close>
  is the number whose digits the hidden input holds, \<open>None\<close> for \<open>""\<close>. \<open>taskCountBadge\<close>
  is the number the badge text shows. \<open>filterPills_active\<close> is the filter value of the pill
  that has the \<open>active\<close> class. \<open>focused\<close> is the element last given focus by the program.
\<close>

record dom =
  taskId_value :: "int option"
  form_values :: form
  form_defaults :: form
  title_invalid :: bool
  titleError_text :: string
  titleError_hidden :: bool
  focused :: "element option"
  formHeading :: string
  submitLabel :: string
  submitBtn_disabled :: bool
  cancelEditBtn_hidden :: bool
  formPanel_editing :: bool
  taskList :: "card list"
  emptyState_hidden :: bool
  taskCountBadge :: nat
  loading_hidden :: bool
  confirmModal_show :: bool
  confirmModal_hidden :: bool
  filterPills_active :: "string option"
  priorityFilter_value :: string
  toastContainer :: "toast list"

type_synonym app = "state \<times> dom"

text \<open>
  The requests an \<open>async\<close> handler sends, in order, each with the state and page at the
  moment the handler is suspended on it.
\<close>

type_synonym trace = "(request \<times> app) list"

subsection \<open>Render\<close>

text \<open>
  \<open>statusChip\<close> and \<open>priorityChip\<close>: the table entry, or the value itself as the label.
  The label and the class are written into the card as they are, without \<open>escHtml\<close>. (A
  value that names a property every object inherits, such as \<open>constructor\<close>, is outside
  this model.)
\<close>

definition statusChip :: "string \<Rightarrow> chip" where
  "statusChip st =
     (if st = ''todo'' then \<lparr>label = ''To Do'', cls = ''chip-todo''\<rparr>
      else if st = ''in_progress'' then \<lparr>label = ''In Progress'', cls = ''chip-in_progress''\<rparr>
      else if st = ''done'' then \<lparr>label = ''Done'', cls = ''chip-done''\<rparr>
      else \<lparr>label = st, cls = []\<rparr>)"

definition priorityChip :: "string \<Rightarrow> chip" where
  "priorityChip pr =
     (if pr = ''low'' then \<lparr>label = green_circle @ '' Low'', cls = ''chip-low''\<rparr>
      else if pr = ''medium'' then \<lparr>label = yellow_circle @ '' Medium'', cls = ''chip-medium''\<rparr>
      else if pr = ''high'' then \<lparr>label = red_circle @ '' High'', cls = ''chip-high''\<rparr>
      else \<lparr>label = pr, cls = []\<rparr>)"

definition formatDate :: "runtime \<Rightarrow> string option \<Rightarrow> string" where
  "formatDate rt dt =
     (case dt of None \<Rightarrow> [] | Some i \<Rightarrow> if i = [] then [] else toLocaleDateString rt i)"

definition isOverdue :: "runtime \<Rightarrow> string option \<Rightarrow> bool" where
  "isOverdue rt dt = (case dt of None \<Rightarrow> False | Some i \<Rightarrow> i \<noteq> [] \<and> is_past rt i)"

definition buildCard :: "runtime \<Rightarrow> task \<Rightarrow> card" where
  "buildCard rt t =
     (let sc = statusChip (status t);
          pc = priorityChip (priority t);
          dueTxt = formatDate rt (due_date t);
          overdueClass = (isOverdue rt (due_date t) \<and> \<not> is_completed t)
      in \<lparr>card_done = is_completed t,
          card_task_id = task_id t,
          card_title = escHtml (Some (title t)),
          card_description =
            (case description t of
               None \<Rightarrow> None
             | Some x \<Rightarrow> if x = [] then None else Some (escHtml (Some x))),
          card_status = sc,
          card_priority = pc,
          card_due = (if dueTxt = [] then None else Some (dueTxt, overdueClass)),
          card_complete_button = (\<not> is_completed t)\<rparr>)"

text \<open>The constant \<open>filtered\<close> of \<open>renderTaskList\<close>.\<close>

definition filtered :: "state \<Rightarrow> task list" where
  "filtered s =
     filter (\<lambda>t.
       let statusOk = (activeStatus s = ''all'' \<or> status t = activeStatus s);
           priorityOk = (activePriority s = ''all'' \<or> priority t = activePriority s)
       in statusOk \<and> priorityOk) (tasks s)"

definition renderTaskList :: "runtime \<Rightarrow> app \<Rightarrow> app" where
  "renderTaskList rt a =
     (case a of (s, d) \<Rightarrow>
        (s, d\<lparr>taskList := map (buildCard rt) (filtered s),
              emptyState_hidden := (length (filtered s) \<noteq> 0),
              taskCountBadge := length (tasks s)\<rparr>))"

subsection \<open>UI utilities\<close>

definition setLoading :: "bool \<Rightarrow> app \<Rightarrow> app" where
  "setLoading visible a =
     (case a of (s, d) \<Rightarrow>
        (s, d\<lparr>loading_hidden := (\<not> visible),
              taskList := (if visible then [] else taskList d)\<rparr>))"

definition setSubmitting :: "bool \<Rightarrow> app \<Rightarrow> app" where
  "setSubmitting active a =
     (case a of (s, d) \<Rightarrow>
        (s, d\<lparr>submitBtn_disabled := active,
              submitLabel :=
                (if active
                 then (if truthy_id (editingId s) then ''Saving'' @ ellipsis
                       else ''Creating'' @ ellipsis)
                 else (if truthy_id (editingId s) then ''Save Changes''
                       else ''Create Task''))\<rparr>))"

text \<open>
  \<open>showToast\<close> appends the toast to the container. The timer that removes it later is not
  part of the model: the container keeps every toast, in the order shown.
\<close>

definition showToast :: "string \<Rightarrow> toast_type \<Rightarrow> app \<Rightarrow> app" where
  "showToast msg type a =
     (case a of (s, d) \<Rightarrow>
        (s, d\<lparr>toastContainer := toastContainer d @
               [\<lparr>toast_class = type,
                 toast_icon =
                   (case type of ToastSuccess \<Rightarrow> check_mark
                    | ToastError \<Rightarrow> cross_mark
                    | ToastInfo \<Rightarrow> info_mark),
                 toast_text = escHtml (Some msg)\<rparr>]\<rparr>))"

subsection \<open>Data loading\<close>

text \<open>
  The \<open>try\<close> block of \<open>loadTasks\<close>, from the point where the list request settles: the error
  it throws, or the application after \<open>state.tasks\<close> was assigned and the list rendered. It
  throws when \<open>apiGetTasks\<close> does, and when the body is \<open>null\<close> (at \<open>res.data\<close>, before the
  assignment).
\<close>

definition loadTasks_try :: "runtime \<Rightarrow> app \<Rightarrow> fetch_result \<Rightarrow> js_error + app" where
  "loadTasks_try rt a1 r =
     (case fetchJSON r of
        Inl err \<Rightarrow> Inl err
      | Inr res \<Rightarrow>
          (case res of
             JsonNull \<Rightarrow> Inl (read_of_null rt)
           | JsonValue dt tv \<Rightarrow>
               (case a1 of (s, d) \<Rightarrow>
                  Inr (renderTaskList rt
                         (s\<lparr>tasks := (case tv of None \<Rightarrow> [] | Some ts \<Rightarrow> ts)\<rparr>, d)))))"

definition loadTasks :: "runtime \<Rightarrow> app \<Rightarrow> fetch_result \<Rightarrow> trace \<times> app" where
  "loadTasks rt a r =
     (let a1 = setLoading True a;
          req = apiGetTasks (activeStatus (fst a1)) (activePriority (fst a1));
          a2 = (case loadTasks_try rt a1 r of
                  Inr a' \<Rightarrow> a'
                | Inl err \<Rightarrow>
                    showToast (''Failed to load tasks: '' @ message err) ToastError a1)
      in ([(req, a1)], setLoading False a2))"

subsection \<open>Form handlers\<close>

definition clearValidation :: "app \<Rightarrow> app" where
  "clearValidation a =
     (case a of (s, d) \<Rightarrow> (s, d\<lparr>title_invalid := False, titleError_hidden := True\<rparr>))"

text \<open>
  \<open>readForm\<close>: what it returns (the payload, or \<open>None\<close> for \<open>null\<close>) or the error it throws
  (\<open>Inl\<close>: the \<open>RangeError\<close> of \<open>toISOString()\<close> for a due date that does not parse), and the
  page after it.
\<close>

definition readForm :: "runtime \<Rightarrow> app \<Rightarrow> (js_error + payload option) \<times> app" where
  "readForm rt a =
     (case a of (s, d) \<Rightarrow>
        (let title = trim (title_value (form_values d)) in
         if title = [] then
           (Inr None, (s, d\<lparr>title_invalid := True,
                             titleError_text := ''Title is required.'',
                             titleError_hidden := False,
                             focused := Some TitleInput\<rparr>))
         else
           (let a1 = clearValidation a;
                f = form_values (snd a1);
                due = dueDate_value f;
                desc = trim (description_value f)
            in case (if due = [] then Inr None else map_sum id Some (toISOString rt due)) of
                 Inl err \<Rightarrow> (Inl err, a1)
               | Inr due_iso \<Rightarrow>
                   (Inr (Some \<lparr>p_title = title,
                               p_description = (if desc = [] then None else Some desc),
                               p_priority = priority_value f,
                               p_due_date = due_iso\<rparr>),
                    a1))))"

definition resetForm :: "app \<Rightarrow> app" where
  "resetForm a =
     (case a of (s, d) \<Rightarrow>
        clearValidation
          (s\<lparr>editingId := None\<rparr>,
           d\<lparr>form_values := form_defaults d,
             taskId_value := None,
             formHeading := ''Add New Task'',
             submitLabel := ''Create Task'',
             cancelEditBtn_hidden := True,
             formPanel_editing := False\<rparr>))"

text \<open>
  \<open>populateForm\<close>. When the task's due date does not parse, \<open>toISOString()\<close> throws after
  \<open>editingId\<close>, the hidden id, title, description and priority were written: the function
  ends there, with the due date input, the heading, the labels and the focus as they were.
\<close>

definition populateForm :: "runtime \<Rightarrow> task \<Rightarrow> app \<Rightarrow> app" where
  "populateForm rt t a =
     (case a of (s, d) \<Rightarrow>
        (let s1 = s\<lparr>editingId := Some (task_id t)\<rparr>;
             d1 = d\<lparr>taskId_value := Some (task_id t),
                    form_values := (form_values d)
                      \<lparr>title_value := title t,
                       description_value := (case description t of None \<Rightarrow> [] | Some x \<Rightarrow> x),
                       priority_value := priority t\<rparr>\<rparr>
         in case (case due_date t of
                    None \<Rightarrow> Inr []
                  | Some i \<Rightarrow> if i = [] then Inr [] else toLocalInput rt i) of
              Inl err \<Rightarrow> (s1, d1)
            | Inr local \<Rightarrow>
                (s1,
                 d1\<lparr>form_values := (form_values d1)\<lparr>dueDate_value := local\<rparr>,
                    formHeading := ''Edit Task'',
                    submitLabel := ''Save Changes'',
                    cancelEditBtn_hidden := False,
                    formPanel_editing := True,
                    focused := Some TitleInput\<rparr>)))"

text \<open>
  \<open>handleFormSubmit\<close>. \<open>r1\<close> settles the create or update request and \<open>r2\<close> the list request
  of the reload that follows a success. \<open>readForm\<close> is called before the \<open>try\<close>: when it
  throws, the handler ends there.
\<close>

definition handleFormSubmit :: "runtime \<Rightarrow> app \<Rightarrow> fetch_result \<Rightarrow> fetch_result \<Rightarrow> trace \<times> app" where
  "handleFormSubmit rt a r1 r2 =
     (case readForm rt a of
        (Inl thrown, a0) \<Rightarrow> ([], a0)
      | (Inr None, a0) \<Rightarrow> ([], a0)
      | (Inr (Some p), a0) \<Rightarrow>
          (let a1 = setSubmitting True a0;
               req = (case editingId (fst a1) of
                        None \<Rightarrow> apiCreateTask p
                      | Some i \<Rightarrow> if i \<noteq> 0 then apiUpdateTask i p else apiCreateTask p);
               ok_msg = (if truthy_id (editingId (fst a1))
                         then ''Task updated successfully! '' @ check_mark
                         else ''Task created! '' @ check_mark)
           in case fetchJSON r1 of
                Inr x \<Rightarrow>
                  (let a2 = showToast ok_msg ToastSuccess a1;
                       a3 = resetForm a2;
                       (tr, a4) = loadTasks rt a3 r2
                   in ((req, a1) # tr, setSubmitting False a4))
              | Inl err \<Rightarrow>
                  ([(req, a1)],
                   setSubmitting False (showToast (''Error: '' @ message err) ToastError a1))))"

subsection \<open>Task list handlers\<close>

definition handleComplete :: "runtime \<Rightarrow> int \<Rightarrow> app \<Rightarrow> fetch_result \<Rightarrow> fetch_result \<Rightarrow> trace \<times> app" where
  "handleComplete rt i a r1 r2 =
     (case fetchJSON r1 of
        Inr x \<Rightarrow>
          (let a1 = showToast (''Task marked as done! '' @ party_popper) ToastSuccess a;
               (tr, a2) = loadTasks rt a1 r2
           in ((apiCompleteTask i, a) # tr, a2))
      | Inl err \<Rightarrow>
          ([(apiCompleteTask i, a)],
           showToast (''Could not complete task: '' @ message err) ToastError a))"

definition handleEdit :: "runtime \<Rightarrow> int \<Rightarrow> app \<Rightarrow> app" where
  "handleEdit rt i a =
     (case List.find (\<lambda>t. task_id t = i) (tasks (fst a)) of
        None \<Rightarrow> showToast ''Task not found in local state.'' ToastError a
      | Some t \<Rightarrow> populateForm rt t a)"

subsection \<open>Delete modal\<close>

definition openDeleteModal :: "int \<Rightarrow> app \<Rightarrow> app" where
  "openDeleteModal i a =
     (case a of (s, d) \<Rightarrow> (s\<lparr>pendingDeleteId := Some i\<rparr>, d\<lparr>confirmModal_show := True\<rparr>))"

definition closeDeleteModal :: "app \<Rightarrow> app" where
  "closeDeleteModal a =
     (case a of (s, d) \<Rightarrow> (s\<lparr>pendingDeleteId := None\<rparr>, d\<lparr>confirmModal_show := False\<rparr>))"

definition confirmDelete :: "runtime \<Rightarrow> app \<Rightarrow> fetch_result \<Rightarrow> fetch_result \<Rightarrow> trace \<times> app" where
  "confirmDelete rt a r1 r2 =
     (case pendingDeleteId (fst a) of
        None \<Rightarrow> ([], a)
      | Some i \<Rightarrow>
          if i = 0 then ([], a)
          else
            (let a1 = closeDeleteModal a in
             case fetchJSON r1 of
               Inr x \<Rightarrow>
                 (let a2 = showToast ''Task deleted.'' ToastInfo a1;
                      (tr, a3) = loadTasks rt a2 r2
                  in ((apiDeleteTask i, a1) # tr, a3))
             | Inl err \<Rightarrow>
                 ([(apiDeleteTask i, a1)],
                  showToast (''Could not delete task: '' @ message err) ToastError a1)))"

text \<open>
  What a click inside \<open>#task-list\<close> hit: one of the three buttons of a card, with the number
  read from its \<open>data-id\<close>, or something else.
\<close>

datatype click_target = CompleteBtn int | EditBtn int | DeleteBtn int | NoButton

definition handleTaskListClick :: "runtime \<Rightarrow> click_target \<Rightarrow> app \<Rightarrow> fetch_result \<Rightarrow> fetch_result \<Rightarrow> trace \<times> app" where
  "handleTaskListClick rt e a r1 r2 =
     (case e of
        CompleteBtn i \<Rightarrow> handleComplete rt i a r1 r2
      | EditBtn i \<Rightarrow> ([], handleEdit rt i a)
      | DeleteBtn i \<Rightarrow> ([], openDeleteModal i a)
      | NoButton \<Rightarrow> ([], a))"

subsection \<open>Filter handlers\<close>

text \<open>
  \<open>handleStatusPillClick\<close>; the argument is the \<open>data-filter-status\<close> of the pill the click
  hit, \<open>None\<close> when it hit no pill.
\<close>

definition handleStatusPillClick :: "runtime \<Rightarrow> string option \<Rightarrow> app \<Rightarrow> app" where
  "handleStatusPillClick rt pill a =
     (case pill of
        None \<Rightarrow> a
      | Some v \<Rightarrow>
          (case a of (s, d) \<Rightarrow>
             renderTaskList rt (s\<lparr>activeStatus := v\<rparr>, d\<lparr>filterPills_active := Some v\<rparr>)))"

definition handlePriorityFilterChange :: "runtime \<Rightarrow> app \<Rightarrow> app" where
  "handlePriorityFilterChange rt a =
     (case a of (s, d) \<Rightarrow>
        renderTaskList rt (s\<lparr>activePriority := priorityFilter_value d\<rparr>, d))"

subsection \<open>Initialisation: the listeners\<close>

text \<open>
  The events \<open>init\<close> registers a listener for, with what the listener reads from the event:
  the button a click in the list hit, the pill a click on the filter bar hit, the value the
  user chose in the priority select, whether a click on the modal hit the overlay itself, the
  text the user typed into the title, the key pressed. \<open>DOMContentLoaded\<close> runs \<open>init\<close>, which
  ends with the initial load.
\<close>

datatype event =
    FormSubmit
  | CancelEditClick
  | TaskListClick click_target
  | FilterPillsClick "string option"
  | PriorityFilterChange string
  | RefreshClick
  | ModalCancelClick
  | ModalConfirmClick
  | ModalClick bool
  | TitleInputEvent string
  | KeyDown string
  | DOMContentLoaded

text \<open>
  One event, handled to the end; \<open>r1\<close> and \<open>r2\<close> settle the first and the second request the
  handler sends, if it sends them. Events that arrive while a handler is suspended on a
  request are not interleaved with it here. An exception that no \<open>catch\<close> takes ends the
  handler: the state and the page keep what was written before it, nothing more is sent
  and no toast is shown.
\<close>

definition step :: "runtime \<Rightarrow> app \<Rightarrow> event \<Rightarrow> fetch_result \<Rightarrow> fetch_result \<Rightarrow> trace \<times> app" where
  "step rt a e r1 r2 =
     (case e of
        FormSubmit \<Rightarrow> handleFormSubmit rt a r1 r2
      | CancelEditClick \<Rightarrow> ([], resetForm a)
      | TaskListClick t \<Rightarrow> handleTaskListClick rt t a r1 r2
      | FilterPillsClick pill \<Rightarrow> ([], handleStatusPillClick rt pill a)
      | PriorityFilterChange v \<Rightarrow>
          ([], handlePriorityFilterChange rt (fst a, (snd a)\<lparr>priorityFilter_value := v\<rparr>))
      | RefreshClick \<Rightarrow> loadTasks rt a r1
      | ModalCancelClick \<Rightarrow> ([], closeDeleteModal a)
      | ModalConfirmClick \<Rightarrow> confirmDelete rt a r1 r2
      | ModalClick on_overlay \<Rightarrow> ([], if on_overlay then closeDeleteModal a else a)
      | TitleInputEvent v \<Rightarrow>
          ([], clearValidation
                 (fst a, (snd a)\<lparr>form_values := (form_values (snd a))\<lparr>title_value := v\<rparr>\<rparr>))
      | KeyDown k \<Rightarrow>
          ([], if k = ''Escape'' \<and> \<not> confirmModal_hidden (snd a) then closeDeleteModal a else a)
      | DOMContentLoaded \<Rightarrow> loadTasks rt a r1)"

subsection \<open>Predicates and sample data for the properties\<close>

text \<open>
  The five entities \<open>escHtml\<close> writes, without their leading \<open>&\<close>, and the property that
  every \<open>&\<close> of a string starts one of them.
\<close>

definition entity_tails :: "string list" where
  "entity_tails = [''amp;'', ''lt;'', ''gt;'', ''quot;'', ''#39;'']"

fun amp_starts_entity :: "string \<Rightarrow> bool" where
  "amp_starts_entity [] = True"
| "amp_starts_entity (c # cs) =
     ((if c = CHR ''&'' then list_ex (\<lambda>e. take (length e) cs = e) entity_tails else True)
      \<and> amp_starts_entity cs)"

text \<open>No raw \<open><\<close>, \<open>>\<close>, double or single quote, and \<open>&\<close> only at the start of an entity.\<close>

definition html_safe :: "string \<Rightarrow> bool" where
  "html_safe s =
     (CHR ''<'' \<notin> set s \<and> CHR ''>'' \<notin> set s \<and> CHR 0x22 \<notin> set s \<and> CHR 0x27 \<notin> set s
      \<and> amp_starts_entity s)"

text \<open>What the five replacements of \<open>escHtml\<close> make of one character.\<close>

definition escape_char :: "char \<Rightarrow> string" where
  "escape_char x =
     (if x = CHR ''&'' then ''&amp;''
      else if x = CHR ''<'' then ''&lt;''
      else if x = CHR ''>'' then ''&gt;''
      else if x = CHR 0x22 then ''&quot;''
      else if x = CHR 0x27 then ''&#39;''
      else [x])"

text \<open>
  The matching rule in the words of the specification: a task matches the filter value
  \<open>all\<close> unconditionally, otherwise only if its field equals the filter value.
\<close>

definition matches_filter :: "string \<Rightarrow> string \<Rightarrow> bool" where
  "matches_filter f v = (f = ''all'' \<or> v = f)"

text \<open>
  The view in the words of the specification: the tasks matching both filters, taken from
  the list one by one in their order.
\<close>

fun matching_subsequence :: "string \<Rightarrow> string \<Rightarrow> task list \<Rightarrow> task list" where
  "matching_subsequence sf pf [] = []"
| "matching_subsequence sf pf (t # ts) =
     (if matches_filter sf (status t) \<and> matches_filter pf (priority t)
      then t # matching_subsequence sf pf ts
      else matching_subsequence sf pf ts)"

text \<open>Sample data: a runtime, four tasks, the initial \<open>state\<close> of the source, and a page.\<close>

definition rt0 :: runtime where
  "rt0 = \<lparr>toLocaleDateString = (\<lambda>s. take 10 s), is_past = (\<lambda>s. False),
          toISOString = (\<lambda>s. if length s = 16 then Inr (s @ '':00.000Z'')
                               else Inl (Error ''Invalid time value'')),
          toLocalInput = (\<lambda>s. if length s < 16 then Inl (Error ''Invalid time value'')
                                else Inr (take 16 s)),
          read_of_null = Error ''res is null''\<rparr>"

definition task1 :: task where
  "task1 = \<lparr>task_id = 1, title = ''Write <report> & send'', description = Some ''a > b'',
            status = ''todo'', priority = ''high'', is_completed = False, due_date = None\<rparr>"

definition task2 :: task where
  "task2 = \<lparr>task_id = 2, title = ''Review'', description = None,
            status = ''done'', priority = ''high'', is_completed = True, due_date = None\<rparr>"

definition task3 :: task where
  "task3 = \<lparr>task_id = 5, title = ''Plan'', description = None,
            status = ''todo'', priority = ''low'', is_completed = False, due_date = None\<rparr>"

definition task4 :: task where
  "task4 = \<lparr>task_id = 7, title = ''Ship'', description = None,
            status = ''todo'', priority = ''high'', is_completed = False, due_date = None\<rparr>"

text \<open>The initial value of \<open>state\<close> in the source, an empty form and a page before any event.\<close>

definition state0 :: state where
  "state0 = \<lparr>tasks = [], activeStatus = ''all'', activePriority = ''all'',
             editingId = None, pendingDeleteId = None\<rparr>"

definition form0 :: form where
  "form0 = \<lparr>title_value = [], description_value = [], priority_value = ''medium'',
            dueDate_value = []\<rparr>"

definition page0 :: dom where
  "page0 = \<lparr>taskId_value = None, form_values = form0, form_defaults = form0,
            title_invalid = False, titleError_text = [], titleError_hidden = True,
            focused = None, formHeading = ''Add New Task'', submitLabel = ''Create Task'',
            submitBtn_disabled = False, cancelEditBtn_hidden = True, formPanel_editing = False,
            taskList = [], emptyState_hidden = True, taskCountBadge = 0, loading_hidden = True,
            confirmModal_show = False, confirmModal_hidden = False,
            filterPills_active = Some ''all'', priorityFilter_value = ''all'',
            toastContainer = []\<rparr>"

text \<open>Sample answers of the network.\<close>

definition malformed_200 :: response where
  "malformed_200 = \<lparr>res_status = 200, res_statusText = ''OK'', res_json = None\<rparr>"

definition empty_detail_500 :: response where
  "empty_detail_500 = \<lparr>res_status = 500, res_statusText = ''Internal Server Error'',
     res_json = Some (JsonValue (Some (Str [])) None)\<rparr>"

definition not_found_404 :: response where
  "not_found_404 = \<lparr>res_status = 404, res_statusText = ''Not Found'',
     res_json = Some (JsonValue (Some (Str ''Task with id=9 not found'')) None)\<rparr>"

definition bad_gateway_502 :: response where
  "bad_gateway_502 = \<lparr>res_status = 502, res_statusText = ''Bad Gateway'', res_json = None\<rparr>"

definition list_200 :: "task list \<Rightarrow> response" where
  "list_200 ts = \<lparr>res_status = 200, res_statusText = ''OK'',
     res_json = Some (JsonValue None (Some ts))\<rparr>"

definition null_200 :: response where
  "null_200 = \<lparr>res_status = 200, res_statusText = ''OK'', res_json = Some JsonNull\<rparr>"

definition created_201 :: response where
  "created_201 = \<lparr>res_status = 201, res_statusText = ''Created'', res_json = Some empty_object\<rparr>"

definition ok_200 :: response where
  "ok_200 = \<lparr>res_status = 200, res_statusText = ''OK'', res_json = Some empty_object\<rparr>"

definition failed_fetch :: fetch_result where
  "failed_fetch = Rejected ''Failed to fetch''"

text \<open>The generic message of \<open>fetchJSON\<close>.\<close>

definition generic_message :: "response \<Rightarrow> string" where
  "generic_message res = ''HTTP '' @ show_nat (res_status res) @ '': '' @ res_statusText res"

text \<open>The application after the initial load was answered with the four sample tasks.\<close>

definition loaded :: app where
  "loaded = snd (step rt0 (state0, page0) DOMContentLoaded
                   (Resolved (list_200 [task1, task2, task3, task4])) failed_fetch)"

text \<open>
  A title of white space only (space, tab, no-break space, em space, line feed), a page whose
  title input holds it, and a page whose title input holds a proper title.
\<close>

definition blank_title :: string where
  "blank_title = [CHR 0x20, CHR 0x09, CHR 0xC2, CHR 0xA0, CHR 0xE2, CHR 0x80, CHR 0x83, CHR 0x0A]"

definition blank_page :: dom where
  "blank_page = page0\<lparr>form_values := form0\<lparr>title_value := blank_title\<rparr>\<rparr>"

definition typed_page :: dom where
  "typed_page = page0\<lparr>form_values := form0\<lparr>title_value := ''  Buy milk ''\<rparr>\<rparr>"

definition new_payload :: payload where
  "new_payload = \<lparr>p_title = ''Buy milk'', p_description = None, p_priority = ''medium'',
                   p_due_date = None\<rparr>"



text \<open>
  Complete is clicked on task 1 of the loaded application: both requests succeed, or the
  reload fails.
\<close>

definition completing :: "trace \<times> app" where
  "completing = step rt0 loaded (TaskListClick (CompleteBtn 1)) (Resolved ok_200)
                  (Resolved (list_200 [task1, task2, task3, task4]))"

definition completing_reload_fails :: "trace \<times> app" where
  "completing_reload_fails =
     step rt0 loaded (TaskListClick (CompleteBtn 1)) (Resolved ok_200) failed_fetch"

text \<open>Delete is clicked on task 5 of the loaded application, and then confirmed.\<close>

definition confirming5 :: app where
  "confirming5 = snd (step rt0 loaded (TaskListClick (DeleteBtn 5)) failed_fetch failed_fetch)"

definition deleting5 :: "trace \<times> app" where
  "deleting5 = step rt0 confirming5 ModalConfirmClick (Resolved ok_200)
                 (Resolved (list_200 [task1, task2, task4]))"

text \<open>The toast \<open>showToast(msg, "error")\<close> appends.\<close>

definition error_toast :: "string \<Rightarrow> toast" where
  "error_toast msg = \<lparr>toast_class = ToastError, toast_icon = cross_mark,
                       toast_text = escHtml (Some msg)\<rparr>"

text \<open>The toast \<open>showToast(msg, type)\<close> appends.\<close>

definition notice :: "string \<Rightarrow> toast_type \<Rightarrow> toast" where
  "notice msg type =
     \<lparr>toast_class = type,
      toast_icon = (case type of ToastSuccess \<Rightarrow> check_mark | ToastError \<Rightarrow> cross_mark
                    | ToastInfo \<Rightarrow> info_mark),
      toast_text = escHtml (Some msg)\<rparr>"

text \<open>
  The request a submit with payload \<open>p\<close> sends in state \<open>s\<close>: an update for the id being
  edited when \<open>editingId\<close> is truthy, a create otherwise.
\<close>

definition submit_request :: "state \<Rightarrow> payload \<Rightarrow> request" where
  "submit_request s p =
     (if truthy_id (editingId s) then apiUpdateTask (the (editingId s)) p else apiCreateTask p)"

text \<open>The success notice of a submit in state \<open>s\<close>.\<close>

definition submit_notice :: "state \<Rightarrow> toast" where
  "submit_notice s =
     notice ((if truthy_id (editingId s) then ''Task updated successfully! ''
              else ''Task created! '') @ check_mark) ToastSuccess"

text \<open>
  A reload fails, in the words used below, when its list request fails (\<open>fetch\<close> rejects or
  the status is not 2xx) or is answered with the body \<open>null\<close>; the error is the one of the
  request, respectively the engine's \<open>TypeError\<close>.
\<close>

definition reload_failure :: "runtime \<Rightarrow> fetch_result \<Rightarrow> js_error option" where
  "reload_failure rt r =
     (case fetchJSON r of
        Inl err \<Rightarrow> Some err
      | Inr res \<Rightarrow> (case res of JsonNull \<Rightarrow> Some (read_of_null rt) | JsonValue dt tv \<Rightarrow> None))"

section \<open>Properties\<close>

subsection \<open>Escaping\<close>

lemma replaceAll_append: "replaceAll c r (xs @ ys) = replaceAll c r xs @ replaceAll c r ys"
  by (simp add: replaceAll_def)

lemma replaceAll_concat_map:
  "replaceAll c r (concat (map f xs)) = concat (map (\<lambda>x. replaceAll c r (f x)) xs)"
  by (induction xs) (simp_all add: replaceAll_append, simp add: replaceAll_def)

lemma replaceAll_as_concat: "replaceAll c r s = concat (map (\<lambda>x. replaceAll c r [x]) s)"
  by (simp add: replaceAll_def)

lemma five_replacements:
  "replaceAll (CHR 0x27) ''&#39;''
     (replaceAll (CHR 0x22) ''&quot;''
       (replaceAll CHR ''>'' ''&gt;''
         (replaceAll CHR ''<'' ''&lt;''
           (replaceAll CHR ''&'' ''&amp;'' [x])))) = escape_char x"
  by (simp add: replaceAll_def escape_char_def)

text \<open>
  The five passes over the whole string come to one pass that rewrites each character on
  its own: a later pass never touches what an earlier one wrote.
\<close>

lemma escHtml_by_char: "escHtml (Some s) = concat (map escape_char s)"
proof -
  have "replaceAll (CHR 0x27) ''&#39;''
     (replaceAll (CHR 0x22) ''&quot;''
       (replaceAll CHR ''>'' ''&gt;''
         (replaceAll CHR ''<'' ''&lt;''
           (replaceAll CHR ''&'' ''&amp;'' s)))) = concat (map escape_char s)"
    by (subst replaceAll_as_concat [of "CHR ''&''"])
       (simp only: replaceAll_concat_map five_replacements)
  then show ?thesis by (cases s) (simp_all add: escHtml_def)
qed

lemma set_escape_char:
  "CHR ''<'' \<notin> set (escape_char x)" "CHR ''>'' \<notin> set (escape_char x)"
  "CHR 0x22 \<notin> set (escape_char x)" "CHR 0x27 \<notin> set (escape_char x)"
  by (simp_all add: escape_char_def)

lemma amp_escape_char:
  "amp_starts_entity rest \<Longrightarrow> amp_starts_entity (escape_char x @ rest)"
  by (simp add: escape_char_def entity_tails_def)

lemma amp_escaped: "amp_starts_entity (concat (map escape_char s))"
  by (induction s) (simp_all add: amp_escape_char)

lemma html_safe_escHtml: "html_safe (escHtml (Some s))"
  unfolding escHtml_by_char html_safe_def
  using set_escape_char by (auto simp: amp_escaped)

text \<open>
  Claim C10. For every string the output of \<open>escHtml\<close> has no raw \<open><\<close>, \<open>>\<close>, double quote
  or single quote, and every \<open>&\<close> in it starts one of the five entities; a falsy argument
  (\<open>null\<close>, \<open>undefined\<close>, the empty string) gives the empty string. The title and the
  description of a card and the text of a toast are outputs of \<open>escHtml\<close>.
\<close>

theorem escHtml_output_safe:
  "html_safe (escHtml (Some str))
   \<and> escHtml None = [] \<and> escHtml (Some []) = []
   \<and> card_title (buildCard rt t) = escHtml (Some (title t))
   \<and> (case card_description (buildCard rt t) of
        None \<Rightarrow> True
      | Some h \<Rightarrow> html_safe h \<and> Some h = map_option (\<lambda>x. escHtml (Some x)) (description t))
   \<and> map toast_text (toastContainer (snd (showToast msg type (s, d))))
       = map toast_text (toastContainer d) @ [escHtml (Some msg)]"
proof -
  have "case card_description (buildCard rt t) of
        None \<Rightarrow> True
      | Some h \<Rightarrow> html_safe h \<and> Some h = map_option (\<lambda>x. escHtml (Some x)) (description t)"
    by (cases "description t") (simp_all add: buildCard_def Let_def html_safe_escHtml)
  moreover have "card_title (buildCard rt t) = escHtml (Some (title t))"
    by (simp add: buildCard_def Let_def)
  moreover have "map toast_text (toastContainer (snd (showToast msg type (s, d))))
       = map toast_text (toastContainer d) @ [escHtml (Some msg)]"
    by (simp add: showToast_def)
  moreover have "escHtml None = [] \<and> escHtml (Some []) = []"
    by (simp add: escHtml_def)
  ultimately show ?thesis
    using html_safe_escHtml [of str] by simp
qed

theorem escHtml_output_safe_witness:
  "escHtml (Some ''Write <report> & send'') = ''Write &lt;report&gt; &amp; send''
   \<and> html_safe ''Write &lt;report&gt; &amp; send''
   \<and> card_title (buildCard rt0 task1) = ''Write &lt;report&gt; &amp; send''
   \<and> card_description (buildCard rt0 task1) = Some ''a &gt; b''"
  using escHtml_output_safe [of "''Write <report> & send''" rt0 task1]
  by (simp add: escHtml_by_char escape_char_def task1_def buildCard_def Let_def
        html_safe_def entity_tails_def)

subsection \<open>The rendered view\<close>

lemma filtered_eq:
  "filtered s = matching_subsequence (activeStatus s) (activePriority s) (tasks s)"
proof -
  have "filter (\<lambda>t. matches_filter sf (status t) \<and> matches_filter pf (priority t)) ts
        = matching_subsequence sf pf ts" for sf pf ts
    by (induction ts) simp_all
  then show ?thesis by (simp add: filtered_def matches_filter_def)
qed

text \<open>
  Claim C1. For every task list and every pair of active filters, the list \<open>renderTaskList\<close>
  draws is the subsequence of \<open>state.tasks\<close> that the specification describes: exactly the
  tasks matching both filters, in their original order.
\<close>

theorem renderTaskList_view:
  "filtered s = matching_subsequence (activeStatus s) (activePriority s) (tasks s)
   \<and> subseq (filtered s) (tasks s)
   \<and> set (filtered s) =
       {t \<in> set (tasks s). matches_filter (activeStatus s) (status t)
                           \<and> matches_filter (activePriority s) (priority t)}
   \<and> taskList (snd (renderTaskList rt (s, d))) = map (buildCard rt) (filtered s)"
proof -
  have "subseq (filtered s) (tasks s)" by (simp add: filtered_def)
  moreover have "set (filtered s) =
       {t \<in> set (tasks s). matches_filter (activeStatus s) (status t)
                           \<and> matches_filter (activePriority s) (priority t)}"
    by (auto simp: filtered_def matches_filter_def)
  ultimately show ?thesis by (simp add: filtered_eq renderTaskList_def)
qed

theorem renderTaskList_view_witness:
  "filtered \<lparr>tasks = [task1, task2, task3, task4], activeStatus = ''todo'',
             activePriority = ''high'', editingId = None, pendingDeleteId = None\<rparr>
   = [task1, task4]
   \<and> filtered \<lparr>tasks = [task1, task2, task3, task4], activeStatus = ''all'',
             activePriority = ''all'', editingId = None, pendingDeleteId = None\<rparr>
   = [task1, task2, task3, task4]"
  using renderTaskList_view [of "\<lparr>tasks = [task1, task2, task3, task4], activeStatus = ''todo'',
             activePriority = ''high'', editingId = None, pendingDeleteId = None\<rparr>"]
   renderTaskList_view [of "\<lparr>tasks = [task1, task2, task3, task4], activeStatus = ''all'',
             activePriority = ''all'', editingId = None, pendingDeleteId = None\<rparr>"]
  by (simp add: matches_filter_def task1_def task2_def task3_def task4_def)

subsection \<open>The list request\<close>

text \<open>
  Claim C8. For every pair of filter values (each a non-empty string, as all eight values
  of the data model are), the list request carries the parameter \<open>status\<close> exactly when
  the status filter is not \<open>all\<close>, with the filter value as its value, and likewise
  \<open>priority\<close>; no parameter has the value \<open>all\<close>; and the request \<open>loadTasks\<close> sends is
  this request for the two active filters.
\<close>

theorem apiGetTasks_query:
  assumes "st \<noteq> []" and "pr \<noteq> []"
  shows "map_of (query (apiGetTasks st pr)) ''status'' = (if st = ''all'' then None else Some st)
       \<and> map_of (query (apiGetTasks st pr)) ''priority'' = (if pr = ''all'' then None else Some pr)
       \<and> fst ` set (query (apiGetTasks st pr)) \<subseteq> {''status'', ''priority''}
       \<and> distinct (map fst (query (apiGetTasks st pr)))
       \<and> ''all'' \<notin> snd ` set (query (apiGetTasks st pr))
       \<and> map fst (fst (loadTasks rt (s, d) r)) = [apiGetTasks (activeStatus s) (activePriority s)]"
  using assms by (auto simp: apiGetTasks_def loadTasks_def setLoading_def Let_def)

theorem apiGetTasks_query_witness:
  "query (apiGetTasks ''todo'' ''high'') = [(''status'', ''todo''), (''priority'', ''high'')]
   \<and> query (apiGetTasks ''all'' ''high'') = [(''priority'', ''high'')]
   \<and> map_of (query (apiGetTasks ''all'' ''high'')) ''status'' = None
   \<and> map_of (query (apiGetTasks ''all'' ''high'')) ''priority'' = Some ''high''"
  using apiGetTasks_query [of "''all''" "''high''"]
  by (simp add: apiGetTasks_def)

subsection \<open>The request wrapper\<close>

lemma show_nat_500: "show_nat 500 = ''500''"
  by code_simp

lemma show_nat_502: "show_nat 502 = ''502''"
  by code_simp

text \<open>
  Against claim C5 as it is worded. A response with status 200 whose body does not decode
  makes \<open>fetchJSON\<close> return \<open>{}\<close>, not fail. A response with status 500 whose \<open>detail\<close> is
  present but is the empty string gets the generic message, not the detail.
\<close>

theorem fetchJSON_malformed_counterexample:
  "res_json malformed_200 = None
   \<and> fetchJSON (Resolved malformed_200) = Inr empty_object
   \<and> detail (the (res_json empty_detail_500)) = Some (Str [])
   \<and> fetchJSON (Resolved empty_detail_500) = Inl (Error ''HTTP 500: Internal Server Error'')"
  by (simp add: fetchJSON_def malformed_200_def empty_detail_500_def res_ok_def show_nat_500)

text \<open>
  Claim C5, amended. Given a response, \<open>fetchJSON\<close> fails exactly when the status is not in
  the range 200 to 299. With such a status it returns the decoded body, and \<open>{}\<close> when the
  body does not decode. When it fails, the message is what \<open>String\<close> makes of the body's
  \<open>detail\<close> if that is present and truthy (for a non-empty string: the string itself), and
  \<open>HTTP <status>: <statusText>\<close> if the body does not decode, has no \<open>detail\<close>, or has a
  falsy one.
\<close>

theorem fetchJSON_contract:
  "isl (fetchJSON (Resolved res)) = (\<not> res_ok res)
   \<and> (res_ok res \<longrightarrow>
        fetchJSON (Resolved res) = Inr (case res_json res of None \<Rightarrow> empty_object | Some b \<Rightarrow> b))
   \<and> (\<not> res_ok res \<and> res_json res = Some b \<and> detail b = Some v \<and> truthy v \<longrightarrow>
        fetchJSON (Resolved res) = Inl (Error (ToString v)))
   \<and> (\<not> res_ok res \<and> res_json res = Some b \<and> detail b = Some (Str m) \<and> m \<noteq> [] \<longrightarrow>
        fetchJSON (Resolved res) = Inl (Error m))
   \<and> (\<not> res_ok res \<and>
        (res_json res = None
         \<or> (\<exists>c. res_json res = Some c
                \<and> (detail c = None \<or> (\<exists>w. detail c = Some w \<and> \<not> truthy w)))) \<longrightarrow>
        fetchJSON (Resolved res) = Inl (Error (generic_message res)))"
  by (auto simp: fetchJSON_def Let_def generic_message_def empty_object_def split: option.splits)

theorem fetchJSON_contract_witness:
  "fetchJSON (Resolved not_found_404) = Inl (Error ''Task with id=9 not found'')
   \<and> fetchJSON (Resolved bad_gateway_502) = Inl (Error ''HTTP 502: Bad Gateway'')
   \<and> fetchJSON (Resolved (list_200 [task1])) = Inr (JsonValue None (Some [task1]))"
  using fetchJSON_contract [of not_found_404 "the (res_json not_found_404)"
      "Str ''Task with id=9 not found''" "''Task with id=9 not found''"]
    fetchJSON_contract [of bad_gateway_502]
    fetchJSON_contract [of "list_200 [task1]"]
  by (simp add: not_found_404_def bad_gateway_502_def list_200_def res_ok_def
      generic_message_def show_nat_502)

subsection \<open>Submitting the form\<close>

lemma trim_blank: "trim blank_title = []"
  by code_simp

lemma trim_typed: "trim ''  Buy milk '' = ''Buy milk''"
  by code_simp

text \<open>
  Claim C4. When the title is empty after trimming (it was empty or white space only), a
  submit sends no request, leaves \<open>state\<close> as it was (and so the mode and \<open>editingId\<close>),
  marks the title input invalid and gives it focus; nothing else on the page changes but
  the error text, which is shown.
\<close>

theorem handleFormSubmit_blank_title:
  assumes "trim (title_value (form_values d)) = []"
  shows "fst (handleFormSubmit rt (s, d) r1 r2) = []
       \<and> fst (snd (handleFormSubmit rt (s, d) r1 r2)) = s
       \<and> title_invalid (snd (snd (handleFormSubmit rt (s, d) r1 r2)))
       \<and> focused (snd (snd (handleFormSubmit rt (s, d) r1 r2))) = Some TitleInput
       \<and> snd (snd (handleFormSubmit rt (s, d) r1 r2)) =
           d\<lparr>title_invalid := True, titleError_text := ''Title is required.'',
             titleError_hidden := False, focused := Some TitleInput\<rparr>
       \<and> step rt (s, d) FormSubmit r1 r2 = handleFormSubmit rt (s, d) r1 r2"
  using assms by (simp add: handleFormSubmit_def readForm_def step_def)

theorem handleFormSubmit_blank_title_witness:
  "trim (title_value (form_values blank_page)) = []
   \<and> fst (handleFormSubmit rt0 (state0, blank_page) (Rejected []) (Rejected [])) = []
   \<and> fst (snd (handleFormSubmit rt0 (state0, blank_page) (Rejected []) (Rejected []))) = state0
   \<and> title_invalid (snd (snd (handleFormSubmit rt0 (state0, blank_page) (Rejected []) (Rejected []))))"
proof -
  have h: "trim (title_value (form_values blank_page)) = []"
    by (simp add: blank_page_def page0_def form0_def trim_blank)
  from handleFormSubmit_blank_title [OF h, of rt0 state0 "Rejected []" "Rejected []"] h
  show ?thesis by simp
qed

lemma fst_loadTasks:
  "fst (loadTasks rt a r) =
     [(apiGetTasks (activeStatus (fst a)) (activePriority (fst a)), setLoading True a)]"
  by (cases a) (simp add: loadTasks_def Let_def setLoading_def)

lemma snd_loadTasks:
  "snd (loadTasks rt (s, d) r) =
     (case loadTasks_try rt (s, d\<lparr>loading_hidden := False, taskList := []\<rparr>) r of
        Inr a' \<Rightarrow> setLoading False a'
      | Inl err \<Rightarrow> setLoading False (showToast (''Failed to load tasks: '' @ message err) ToastError
            (s, d\<lparr>loading_hidden := False, taskList := []\<rparr>)))"
  by (simp add: loadTasks_def Let_def setLoading_def split: sum.splits)

text \<open>The \<open>try\<close> block of \<open>loadTasks\<close> throws exactly when the reload fails.\<close>

lemma loadTasks_try_fails:
  "reload_failure rt r = Some err \<Longrightarrow> loadTasks_try rt a r = Inl err"
  by (auto simp: reload_failure_def loadTasks_try_def split: sum.splits decoded.splits)

lemma loadTasks_try_succeeds:
  "reload_failure rt r = None \<Longrightarrow>
     \<exists>b. fetchJSON r = Inr b \<and> b \<noteq> JsonNull \<and>
       loadTasks_try rt (s, d) r = Inr (renderTaskList rt
         (s\<lparr>tasks := (case data_tasks b of None \<Rightarrow> [] | Some ts \<Rightarrow> ts)\<rparr>, d))"
  by (auto simp: reload_failure_def loadTasks_try_def split: sum.splits decoded.splits)

lemma pending_loadTasks_try:
  "loadTasks_try rt (s, d) r = Inr a' \<Longrightarrow>
     pendingDeleteId (fst a') = pendingDeleteId s \<and> editingId (fst a') = editingId s
     \<and> form_values (snd a') = form_values d \<and> taskId_value (snd a') = taskId_value d
     \<and> toastContainer (snd a') = toastContainer d
     \<and> confirmModal_show (snd a') = confirmModal_show d"
  by (auto simp: loadTasks_try_def renderTaskList_def split: sum.splits decoded.splits)

lemma loadTasks_keeps:
  "editingId (fst (snd (loadTasks rt (s, d) r))) = editingId s"
  "pendingDeleteId (fst (snd (loadTasks rt (s, d) r))) = pendingDeleteId s"
  "form_values (snd (snd (loadTasks rt (s, d) r))) = form_values d"
  "taskId_value (snd (snd (loadTasks rt (s, d) r))) = taskId_value d"
  "confirmModal_show (snd (snd (loadTasks rt (s, d) r))) = confirmModal_show d"
  using pending_loadTasks_try [of rt s "d\<lparr>loading_hidden := False, taskList := []\<rparr>" r]
  by (cases "loadTasks_try rt (s, d\<lparr>loading_hidden := False, taskList := []\<rparr>) r";
      simp add: snd_loadTasks setLoading_def showToast_def split_def)+

lemma loadTasks_failed:
  assumes "reload_failure rt r = Some err"
  shows "snd (loadTasks rt (s, d) r) =
           (s, d\<lparr>loading_hidden := True, taskList := [],
                 toastContainer := toastContainer d @
                   [error_toast (''Failed to load tasks: '' @ message err)]\<rparr>)"
  using loadTasks_try_fails [OF assms]
  by (simp add: snd_loadTasks setLoading_def showToast_def error_toast_def)

lemma readForm_typed:
  "readForm rt0 (state0, typed_page) = (Inr (Some new_payload), (state0, typed_page))"
  by code_simp



lemma readForm_payload:
  assumes "readForm rt (s, d) = (Inr (Some p), a0)"
  shows "a0 = (s, d\<lparr>title_invalid := False, titleError_hidden := True\<rparr>)"
  using assms
  by (auto simp: readForm_def Let_def clearValidation_def split: if_splits sum.splits)

text \<open>
  A due date that does not parse: \<open>readForm\<close> throws before the \<open>try\<close> of the handler, which
  sends nothing and shows no toast.
\<close>

lemma handleFormSubmit_throws:
  assumes "readForm rt (s, d) = (Inl err, a0)"
  shows "handleFormSubmit rt (s, d) r1 r2 = ([], clearValidation (s, d))"
  using assms
  by (auto simp: handleFormSubmit_def readForm_def Let_def split: if_splits sum.splits)




subsection \<open>The list area while a request is in flight\<close>

lemma http_methods [simp]:
  "http_method (apiGetTasks st pr) = ''GET''"
  "http_method (apiCreateTask p) = ''POST''"
  "http_method (apiUpdateTask i p) = ''PUT''"
  "http_method (apiCompleteTask i) = ''PATCH''"
  "http_method (apiDeleteTask i) = ''DELETE''"
  by (simp_all add: apiGetTasks_def apiCreateTask_def apiUpdateTask_def apiCompleteTask_def
      apiDeleteTask_def Let_def)

lemma loadTasks_in_flight:
  assumes "(req, a') \<in> set (fst (loadTasks rt a r))"
  shows "http_method req = ''GET'' \<and> taskList (snd a') = [] \<and> fst a' = fst a"
  using assms by (cases a) (auto simp: fst_loadTasks setLoading_def)

lemma handleFormSubmit_in_flight:
  assumes "(req, a') \<in> set (fst (handleFormSubmit rt (s, d) r1 r2))"
  shows "taskList (snd a') = (if http_method req = ''GET'' then [] else taskList d)"
proof -
  obtain po a0 where rf: "readForm rt (s, d) = (po, a0)"
    by (cases "readForm rt (s, d)") auto
  show ?thesis
  proof (cases po)
    case (Inl err)
    with rf assms show ?thesis by (simp add: handleFormSubmit_def)
  next
    case (Inr q)
    show ?thesis
    proof (cases q)
      case None
      with Inr rf assms show ?thesis by (simp add: handleFormSubmit_def)
    next
      case (Some p)
      with Inr rf have a0: "a0 = (s, d\<lparr>title_invalid := False, titleError_hidden := True\<rparr>)"
        by (simp add: readForm_payload)
      from assms rf Inr Some show ?thesis
        by (cases "fetchJSON r1")
           (auto simp: handleFormSubmit_def a0 Let_def split_def fst_loadTasks
              setSubmitting_def showToast_def resetForm_def clearValidation_def setLoading_def
              split: option.splits if_splits)
    qed
  qed
qed

lemma handleComplete_in_flight:
  assumes "(req, a') \<in> set (fst (handleComplete rt i (s, d) r1 r2))"
  shows "taskList (snd a') = (if http_method req = ''GET'' then [] else taskList d)"
  using assms
  by (cases "fetchJSON r1")
     (auto simp: handleComplete_def Let_def split_def fst_loadTasks showToast_def setLoading_def)

lemma confirmDelete_in_flight:
  assumes "(req, a') \<in> set (fst (confirmDelete rt (s, d) r1 r2))"
  shows "taskList (snd a') = (if http_method req = ''GET'' then [] else taskList d)"
  using assms
  by (cases "fetchJSON r1")
     (auto simp: confirmDelete_def Let_def split_def fst_loadTasks showToast_def setLoading_def
        closeDeleteModal_def split: option.splits if_splits)

text \<open>
  Against claim C6 as it is worded. Complete is clicked on a page showing four cards and
  both requests succeed: while the list request of the reload that follows the mutation is
  in flight, the list area is empty.
\<close>

theorem list_cleared_during_reload_counterexample:
  "map card_task_id (taskList (snd loaded)) = [1, 2, 5, 7]
   \<and> map (http_method \<circ> fst) (fst completing) = [''PATCH'', ''GET'']
   \<and> taskList (snd (snd (last (fst completing)))) = []"
  by code_simp

text \<open>
  Claim C6, amended. Whatever the event, while a request it caused is in flight the list
  area is empty if the request is a list request (the initial load, a manual refresh, and
  the reload after a successful create, update, complete or delete alike), and shows what
  it showed before the event if the request is the create, update, complete or delete
  request itself.
\<close>

theorem list_area_in_flight:
  assumes "(req, a') \<in> set (fst (step rt (s, d) e r1 r2))"
  shows "taskList (snd a') = (if http_method req = ''GET'' then [] else taskList d)"
proof (cases e)
  case FormSubmit
  with assms show ?thesis by (simp add: step_def handleFormSubmit_in_flight)
next
  case (TaskListClick t)
  with assms show ?thesis
    by (cases t) (simp_all add: step_def handleTaskListClick_def handleComplete_in_flight)
next
  case ModalConfirmClick
  with assms show ?thesis by (simp add: step_def confirmDelete_in_flight)
next
  case RefreshClick
  with assms show ?thesis using loadTasks_in_flight [of req a' rt "(s, d)" r1]
    by (simp add: step_def)
next
  case DOMContentLoaded
  with assms show ?thesis using loadTasks_in_flight [of req a' rt "(s, d)" r1]
    by (simp add: step_def)
qed (use assms in \<open>simp_all add: step_def\<close>)

theorem list_area_in_flight_witness:
  "last (fst completing) \<in> set (fst completing)
   \<and> http_method (fst (last (fst completing))) = ''GET''
   \<and> taskList (snd (snd (last (fst completing)))) = []
   \<and> hd (fst completing) \<in> set (fst completing)
   \<and> http_method (fst (hd (fst completing))) = ''PATCH''
   \<and> taskList (snd (snd (hd (fst completing)))) = taskList (snd loaded)"
proof -
  have ne: "fst completing \<noteq> []" by code_simp
  have m1: "(fst (last (fst completing)), snd (last (fst completing)))
            \<in> set (fst (step rt0 (fst loaded, snd loaded) (TaskListClick (CompleteBtn 1))
                 (Resolved ok_200) (Resolved (list_200 [task1, task2, task3, task4]))))"
    using ne by (simp add: completing_def)
  have m2: "(fst (hd (fst completing)), snd (hd (fst completing)))
            \<in> set (fst (step rt0 (fst loaded, snd loaded) (TaskListClick (CompleteBtn 1))
                 (Resolved ok_200) (Resolved (list_200 [task1, task2, task3, task4]))))"
    using ne by (simp add: completing_def)
  have g: "http_method (fst (last (fst completing))) = ''GET''" by code_simp
  have p: "http_method (fst (hd (fst completing))) = ''PATCH''" by code_simp
  from list_area_in_flight [OF m1] list_area_in_flight [OF m2] ne g p
  show ?thesis by simp
qed

subsection \<open>Failure of a mutation\<close>

text \<open>
  Against claim C7 as it is worded. Complete is clicked on a page showing four cards, the
  complete request succeeds and the reload fails: the list area is left empty, and the
  success notice was given before the failure.
\<close>

theorem reload_failure_counterexample:
  "map card_task_id (taskList (snd loaded)) = [1, 2, 5, 7]
   \<and> map (http_method \<circ> fst) (fst completing_reload_fails) = [''PATCH'', ''GET'']
   \<and> taskList (snd (snd completing_reload_fails)) = []
   \<and> map toast_class (toastContainer (snd (snd completing_reload_fails)))
       = [ToastSuccess, ToastError]"
  by code_simp

lemma submit_blank:
  assumes "trim (title_value (form_values d)) = []"
  shows "step rt (s, d) FormSubmit r1 r2 =
           ([], (s, d\<lparr>title_invalid := True, titleError_text := ''Title is required.'',
                        titleError_hidden := False, focused := Some TitleInput\<rparr>))"
  using assms by (simp add: step_def handleFormSubmit_def readForm_def)

lemma submit_call_fails:
  assumes "readForm rt (s, d) = (Inr (Some p), a0)" and "fetchJSON r1 = Inl err"
  shows "map fst (fst (step rt (s, d) FormSubmit r1 r2)) = [submit_request s p]
       \<and> fst (snd (step rt (s, d) FormSubmit r1 r2)) = s
       \<and> taskList (snd (snd (step rt (s, d) FormSubmit r1 r2))) = taskList d
       \<and> form_values (snd (snd (step rt (s, d) FormSubmit r1 r2))) = form_values d
       \<and> toastContainer (snd (snd (step rt (s, d) FormSubmit r1 r2))) =
           toastContainer d @ [error_toast (''Error: '' @ message err)]"
  using assms readForm_payload [OF assms(1)]
  by (cases "editingId s")
     (simp_all add: step_def handleFormSubmit_def submit_request_def setSubmitting_def
        showToast_def error_toast_def truthy_id_def Let_def split_def)

lemma submit_reload_fails:
  assumes "readForm rt (s, d) = (Inr (Some p), a0)" and "fetchJSON r1 = Inr x"
      and "reload_failure rt r2 = Some err2"
  shows "map fst (fst (step rt (s, d) FormSubmit r1 r2)) =
           [submit_request s p, apiGetTasks (activeStatus s) (activePriority s)]
       \<and> tasks (fst (snd (step rt (s, d) FormSubmit r1 r2))) = tasks s
       \<and> editingId (fst (snd (step rt (s, d) FormSubmit r1 r2))) = None
       \<and> form_values (snd (snd (step rt (s, d) FormSubmit r1 r2))) = form_defaults d
       \<and> taskList (snd (snd (step rt (s, d) FormSubmit r1 r2))) = []
       \<and> toastContainer (snd (snd (step rt (s, d) FormSubmit r1 r2))) =
           toastContainer d @
           [submit_notice s, error_toast (''Failed to load tasks: '' @ message err2)]"
  using assms(1,2) readForm_payload [OF assms(1)]
  by (cases "editingId s")
     (simp_all add: step_def handleFormSubmit_def submit_request_def submit_notice_def notice_def
        setSubmitting_def showToast_def resetForm_def clearValidation_def fst_loadTasks
        loadTasks_failed [OF assms(3)] truthy_id_def Let_def split_def)

lemma complete_call_fails:
  assumes "fetchJSON r1 = Inl err"
  shows "step rt (s, d) (TaskListClick (CompleteBtn i)) r1 r2 =
           ([(apiCompleteTask i, (s, d))],
            (s, d\<lparr>toastContainer := toastContainer d @
                     [error_toast (''Could not complete task: '' @ message err)]\<rparr>))"
  using assms
  by (simp add: step_def handleTaskListClick_def handleComplete_def showToast_def error_toast_def)

lemma complete_reload_fails:
  assumes "fetchJSON r1 = Inr x" and "reload_failure rt r2 = Some err2"
  shows "map fst (fst (step rt (s, d) (TaskListClick (CompleteBtn i)) r1 r2)) =
           [apiCompleteTask i, apiGetTasks (activeStatus s) (activePriority s)]
       \<and> snd (step rt (s, d) (TaskListClick (CompleteBtn i)) r1 r2) =
           (s, d\<lparr>loading_hidden := True, taskList := [],
                 toastContainer := toastContainer d @
                   [notice (''Task marked as done! '' @ party_popper) ToastSuccess,
                    error_toast (''Failed to load tasks: '' @ message err2)]\<rparr>)"
  using assms(1)
  by (simp add: step_def handleTaskListClick_def handleComplete_def showToast_def notice_def
      fst_loadTasks loadTasks_failed [OF assms(2)] Let_def split_def)

lemma delete_call_fails:
  assumes "pendingDeleteId s = Some i" and "i \<noteq> 0" and "fetchJSON r1 = Inl err"
  shows "map fst (fst (step rt (s, d) ModalConfirmClick r1 r2)) = [apiDeleteTask i]
       \<and> snd (step rt (s, d) ModalConfirmClick r1 r2) =
           (s\<lparr>pendingDeleteId := None\<rparr>,
            d\<lparr>confirmModal_show := False,
              toastContainer := toastContainer d @
                [error_toast (''Could not delete task: '' @ message err)]\<rparr>)"
  using assms
  by (simp add: step_def confirmDelete_def closeDeleteModal_def showToast_def error_toast_def)

lemma delete_reload_fails:
  assumes "pendingDeleteId s = Some i" and "i \<noteq> 0" and "fetchJSON r1 = Inr x"
      and "reload_failure rt r2 = Some err2"
  shows "map fst (fst (step rt (s, d) ModalConfirmClick r1 r2)) =
           [apiDeleteTask i, apiGetTasks (activeStatus s) (activePriority s)]
       \<and> snd (step rt (s, d) ModalConfirmClick r1 r2) =
           (s\<lparr>pendingDeleteId := None\<rparr>,
            d\<lparr>confirmModal_show := False, loading_hidden := True, taskList := [],
              toastContainer := toastContainer d @
                [notice ''Task deleted.'' ToastInfo,
                 error_toast (''Failed to load tasks: '' @ message err2)]\<rparr>)"
  using assms(1,2,3)
  by (simp add: step_def confirmDelete_def closeDeleteModal_def showToast_def notice_def
      fst_loadTasks loadTasks_failed [OF assms(4)] Let_def split_def)

text \<open>
  Claim C7, amended. For the three mutations the user starts (submitting the form, Complete
  on a card, confirming a delete for a pending id):
  \<^item> if validation fails (the title is blank), nothing is sent, no toast is shown, state and
    list area stay as they were, and the title input is marked invalid and focused;
  \<^item> if the mutation's network call fails, that request is the only one sent (no reload),
    the form is not reset, the failure is notified with the handler's prefix and the
    error's message, and the snapshot and the list area are exactly as before the action;
    for a delete the gate has returned to Idle and the modal is closed;
  \<^item> if the call succeeds and the reload that follows fails (its list request fails, or is
    answered with the body \<open>null\<close>), the snapshot is the one from before, the form reset
    (for a submit) and the return of the gate to Idle (for a delete) have happened, the
    load failure is notified after the success notice, and the list area, emptied when the
    reload began, stays empty.
\<close>

theorem mutation_failure:
  "(trim (title_value (form_values d)) = [] \<longrightarrow>
      step rt (s, d) FormSubmit r1 r2 =
        ([], (s, d\<lparr>title_invalid := True, titleError_text := ''Title is required.'',
                     titleError_hidden := False, focused := Some TitleInput\<rparr>)))
   \<and> (readForm rt (s, d) = (Inr (Some p), a0) \<and> fetchJSON r1 = Inl err \<longrightarrow>
        map fst (fst (step rt (s, d) FormSubmit r1 r2)) = [submit_request s p]
      \<and> fst (snd (step rt (s, d) FormSubmit r1 r2)) = s
      \<and> taskList (snd (snd (step rt (s, d) FormSubmit r1 r2))) = taskList d
      \<and> form_values (snd (snd (step rt (s, d) FormSubmit r1 r2))) = form_values d
      \<and> toastContainer (snd (snd (step rt (s, d) FormSubmit r1 r2))) =
          toastContainer d @ [error_toast (''Error: '' @ message err)])
   \<and> (fetchJSON r1 = Inl err \<longrightarrow>
        step rt (s, d) (TaskListClick (CompleteBtn i)) r1 r2 =
          ([(apiCompleteTask i, (s, d))],
           (s, d\<lparr>toastContainer := toastContainer d @
                    [error_toast (''Could not complete task: '' @ message err)]\<rparr>)))
   \<and> (pendingDeleteId s = Some i \<and> i \<noteq> 0 \<and> fetchJSON r1 = Inl err \<longrightarrow>
        map fst (fst (step rt (s, d) ModalConfirmClick r1 r2)) = [apiDeleteTask i]
      \<and> snd (step rt (s, d) ModalConfirmClick r1 r2) =
          (s\<lparr>pendingDeleteId := None\<rparr>,
           d\<lparr>confirmModal_show := False,
             toastContainer := toastContainer d @
               [error_toast (''Could not delete task: '' @ message err)]\<rparr>))
   \<and> (readForm rt (s, d) = (Inr (Some p), a0) \<and> fetchJSON r1 = Inr x
        \<and> reload_failure rt r2 = Some err2 \<longrightarrow>
        map fst (fst (step rt (s, d) FormSubmit r1 r2)) =
          [submit_request s p, apiGetTasks (activeStatus s) (activePriority s)]
      \<and> tasks (fst (snd (step rt (s, d) FormSubmit r1 r2))) = tasks s
      \<and> editingId (fst (snd (step rt (s, d) FormSubmit r1 r2))) = None
      \<and> form_values (snd (snd (step rt (s, d) FormSubmit r1 r2))) = form_defaults d
      \<and> taskList (snd (snd (step rt (s, d) FormSubmit r1 r2))) = []
      \<and> toastContainer (snd (snd (step rt (s, d) FormSubmit r1 r2))) =
          toastContainer d @
          [submit_notice s, error_toast (''Failed to load tasks: '' @ message err2)])
   \<and> (fetchJSON r1 = Inr x \<and> reload_failure rt r2 = Some err2 \<longrightarrow>
        map fst (fst (step rt (s, d) (TaskListClick (CompleteBtn i)) r1 r2)) =
          [apiCompleteTask i, apiGetTasks (activeStatus s) (activePriority s)]
      \<and> snd (step rt (s, d) (TaskListClick (CompleteBtn i)) r1 r2) =
          (s, d\<lparr>loading_hidden := True, taskList := [],
                toastContainer := toastContainer d @
                  [notice (''Task marked as done! '' @ party_popper) ToastSuccess,
                   error_toast (''Failed to load tasks: '' @ message err2)]\<rparr>))
   \<and> (pendingDeleteId s = Some i \<and> i \<noteq> 0 \<and> fetchJSON r1 = Inr x
        \<and> reload_failure rt r2 = Some err2 \<longrightarrow>
        map fst (fst (step rt (s, d) ModalConfirmClick r1 r2)) =
          [apiDeleteTask i, apiGetTasks (activeStatus s) (activePriority s)]
      \<and> snd (step rt (s, d) ModalConfirmClick r1 r2) =
          (s\<lparr>pendingDeleteId := None\<rparr>,
           d\<lparr>confirmModal_show := False, loading_hidden := True, taskList := [],
             toastContainer := toastContainer d @
               [notice ''Task deleted.'' ToastInfo,
                error_toast (''Failed to load tasks: '' @ message err2)]\<rparr>))"
  using submit_blank [of d rt s r1 r2] submit_call_fails [of rt s d p a0 r1 err r2]
    complete_call_fails [of r1 err rt s d i r2] delete_call_fails [of s i r1 err rt d r2]
    submit_reload_fails [of rt s d p a0 r1 x r2 err2]
    complete_reload_fails [of r1 x rt r2 err2 s d i]
    delete_reload_fails [of s i r1 x rt r2 err2 d]
  by blast

lemma fetch_not_found:
  "fetchJSON (Resolved not_found_404) = Inl (Error ''Task with id=9 not found'')"
  by (simp add: fetchJSON_def not_found_404_def res_ok_def)

lemma fetch_created: "fetchJSON (Resolved created_201) = Inr empty_object"
  by (simp add: fetchJSON_def created_201_def res_ok_def)

lemma fetch_ok: "fetchJSON (Resolved ok_200) = Inr empty_object"
  by (simp add: fetchJSON_def ok_200_def res_ok_def)

lemma reload_null: "reload_failure rt0 (Resolved null_200) = Some (Error ''res is null'')"
  by (simp add: reload_failure_def fetchJSON_def null_200_def res_ok_def rt0_def)

lemma reload_rejected: "reload_failure rt0 failed_fetch = Some (Error ''Failed to fetch'')"
  by (simp add: reload_failure_def fetchJSON_def failed_fetch_def)

lemma confirming5_pending: "pendingDeleteId (fst confirming5) = Some 5"
  by code_simp

theorem mutation_failure_witness:
  "trim (title_value (form_values blank_page)) = []
   \<and> step rt0 (state0, blank_page) FormSubmit failed_fetch failed_fetch =
       ([], (state0, blank_page\<lparr>title_invalid := True, titleError_text := ''Title is required.'',
                        titleError_hidden := False, focused := Some TitleInput\<rparr>))
   \<and> fetchJSON (Resolved not_found_404) = Inl (Error ''Task with id=9 not found'')
   \<and> step rt0 loaded (TaskListClick (CompleteBtn 1)) (Resolved not_found_404) failed_fetch =
       ([(apiCompleteTask 1, loaded)],
        (fst loaded, (snd loaded)\<lparr>toastContainer := toastContainer (snd loaded) @
           [error_toast ''Could not complete task: Task with id=9 not found'']\<rparr>))
   \<and> pendingDeleteId (fst confirming5) = Some 5
   \<and> snd (step rt0 confirming5 ModalConfirmClick (Resolved not_found_404) failed_fetch) =
       ((fst confirming5)\<lparr>pendingDeleteId := None\<rparr>,
        (snd confirming5)\<lparr>confirmModal_show := False,
           toastContainer := toastContainer (snd confirming5) @
             [error_toast ''Could not delete task: Task with id=9 not found'']\<rparr>)
   \<and> reload_failure rt0 (Resolved null_200) = Some (Error ''res is null'')
   \<and> map fst (fst (step rt0 (state0, typed_page) FormSubmit (Resolved created_201)
        (Resolved null_200))) = [apiCreateTask new_payload, apiGetTasks ''all'' ''all'']
   \<and> toastContainer (snd (snd (step rt0 (state0, typed_page) FormSubmit (Resolved created_201)
        (Resolved null_200)))) =
       [submit_notice state0, error_toast ''Failed to load tasks: res is null'']
   \<and> reload_failure rt0 failed_fetch = Some (Error ''Failed to fetch'')
   \<and> taskList (snd (snd (step rt0 loaded (TaskListClick (CompleteBtn 1)) (Resolved ok_200)
        failed_fetch))) = []"
proof -
  have b: "trim (title_value (form_values blank_page)) = []"
    by (simp add: blank_page_def page0_def form0_def trim_blank)
  have sr: "submit_request state0 new_payload = apiCreateTask new_payload"
    by (simp add: submit_request_def state0_def truthy_id_def)
  have st: "activeStatus state0 = ''all''" "activePriority state0 = ''all''"
    by (simp_all add: state0_def)
  have tc: "toastContainer typed_page = []"
    by (simp add: typed_page_def page0_def)
  from mutation_failure [of blank_page rt0 state0 failed_fetch failed_fetch] b
  have 1: "step rt0 (state0, blank_page) FormSubmit failed_fetch failed_fetch =
       ([], (state0, blank_page\<lparr>title_invalid := True, titleError_text := ''Title is required.'',
                        titleError_hidden := False, focused := Some TitleInput\<rparr>))"
    by blast
  from mutation_failure [of "snd loaded" rt0 "fst loaded" "Resolved not_found_404" failed_fetch
      _ _ "Error ''Task with id=9 not found''" 1] fetch_not_found
  have 2: "step rt0 loaded (TaskListClick (CompleteBtn 1)) (Resolved not_found_404) failed_fetch =
       ([(apiCompleteTask 1, loaded)],
        (fst loaded, (snd loaded)\<lparr>toastContainer := toastContainer (snd loaded) @
           [error_toast ''Could not complete task: Task with id=9 not found'']\<rparr>))"
    by simp
  from mutation_failure [of "snd confirming5" rt0 "fst confirming5" "Resolved not_found_404"
      failed_fetch _ _ "Error ''Task with id=9 not found''" 5] fetch_not_found confirming5_pending
  have 3: "snd (step rt0 confirming5 ModalConfirmClick (Resolved not_found_404) failed_fetch) =
       ((fst confirming5)\<lparr>pendingDeleteId := None\<rparr>,
        (snd confirming5)\<lparr>confirmModal_show := False,
           toastContainer := toastContainer (snd confirming5) @
             [error_toast ''Could not delete task: Task with id=9 not found'']\<rparr>)"
    by simp
  from mutation_failure [of typed_page rt0 state0 "Resolved created_201" "Resolved null_200"
      new_payload "(state0, typed_page)" _ _ empty_object "Error ''res is null''"]
    readForm_typed fetch_created reload_null
  have 4: "map fst (fst (step rt0 (state0, typed_page) FormSubmit (Resolved created_201)
        (Resolved null_200))) = [apiCreateTask new_payload, apiGetTasks ''all'' ''all'']
      \<and> toastContainer (snd (snd (step rt0 (state0, typed_page) FormSubmit (Resolved created_201)
        (Resolved null_200)))) =
       [submit_notice state0, error_toast ''Failed to load tasks: res is null'']"
    by (simp add: sr st tc)
  from mutation_failure [of "snd loaded" rt0 "fst loaded" "Resolved ok_200" failed_fetch
      _ _ _ 1 empty_object "Error ''Failed to fetch''"] fetch_ok reload_rejected
  have 5: "taskList (snd (snd (step rt0 loaded (TaskListClick (CompleteBtn 1)) (Resolved ok_200)
        failed_fetch))) = []"
    by simp
  from 1 2 3 4 5 b fetch_not_found confirming5_pending reload_null reload_rejected
  show ?thesis by simp
qed

subsection \<open>The delete gate\<close>

lemma pending_readForm: "pendingDeleteId (fst (snd (readForm rt (s, d)))) = pendingDeleteId s"
  by (simp add: readForm_def Let_def clearValidation_def split: sum.splits)

lemma pending_handleFormSubmit:
  "pendingDeleteId (fst (snd (handleFormSubmit rt (s, d) r1 r2))) = pendingDeleteId s"
proof -
  obtain po s0 d0 where rf: "readForm rt (s, d) = (po, (s0, d0))"
    by (cases "readForm rt (s, d)") auto
  with pending_readForm [of rt s d] have p: "pendingDeleteId s0 = pendingDeleteId s"
    by simp
  show ?thesis
    using rf p
    by (cases po; cases "fetchJSON r1")
       (auto simp: handleFormSubmit_def Let_def split_def loadTasks_keeps setSubmitting_def
          showToast_def resetForm_def clearValidation_def split: option.splits)
qed

lemma pending_handleComplete:
  "pendingDeleteId (fst (snd (handleComplete rt i (s, d) r1 r2))) = pendingDeleteId s"
  by (cases "fetchJSON r1")
     (simp_all add: handleComplete_def Let_def split_def loadTasks_keeps showToast_def)

lemma pending_handleEdit:
  "pendingDeleteId (fst (handleEdit rt i (s, d))) = pendingDeleteId s"
  by (simp add: handleEdit_def populateForm_def showToast_def Let_def
      split: option.splits sum.splits)

lemma confirmDelete_sends:
  "fst (confirmDelete rt (s, d) r1 r2) \<noteq> [] \<longleftrightarrow> truthy_id (pendingDeleteId s)"
  by (cases "fetchJSON r1")
     (simp_all add: confirmDelete_def truthy_id_def Let_def split_def split: option.splits)

lemma confirmDelete_idle:
  assumes "fst (confirmDelete rt (s, d) r1 r2) \<noteq> []"
  shows "pendingDeleteId (fst (snd (confirmDelete rt (s, d) r1 r2))) = None
       \<and> \<not> confirmModal_show (snd (snd (confirmDelete rt (s, d) r1 r2)))
       \<and> list_all (\<lambda>x. pendingDeleteId (fst (snd x)) = None \<and> \<not> confirmModal_show (snd (snd x)))
            (fst (confirmDelete rt (s, d) r1 r2))"
  using assms
  by (cases "fetchJSON r1")
     (auto simp: confirmDelete_def Let_def split_def loadTasks_keeps fst_loadTasks
        closeDeleteModal_def showToast_def setLoading_def split: option.splits if_splits)

lemma confirmDelete_quiet:
  assumes "fst (confirmDelete rt (s, d) r1 r2) = []"
  shows "snd (confirmDelete rt (s, d) r1 r2) = (s, d)"
  using assms
  by (cases "fetchJSON r1")
     (auto simp: confirmDelete_def Let_def split_def split: option.splits if_splits)

lemma pending_after_step:
  assumes "pendingDeleteId (fst (snd (step rt (s, d) e r1 r2))) = Some j"
  shows "pendingDeleteId s = Some j \<or> e = TaskListClick (DeleteBtn j)"
proof (cases e)
  case FormSubmit
  with assms show ?thesis by (simp add: step_def pending_handleFormSubmit)
next
  case (TaskListClick t)
  with assms show ?thesis
    by (cases t)
       (simp_all add: step_def handleTaskListClick_def pending_handleComplete pending_handleEdit
          openDeleteModal_def)
next
  case ModalConfirmClick
  show ?thesis
  proof (cases "fst (confirmDelete rt (s, d) r1 r2) = []")
    case True
    with assms ModalConfirmClick show ?thesis
      by (simp add: step_def confirmDelete_quiet)
  next
    case False
    with assms ModalConfirmClick confirmDelete_idle [OF False] show ?thesis
      by (simp add: step_def)
  qed
next
  case (FilterPillsClick pill)
  with assms show ?thesis
    by (cases pill) (auto simp: step_def handleStatusPillClick_def renderTaskList_def)
next
  case RefreshClick
  with assms show ?thesis by (simp add: step_def loadTasks_keeps)
next
  case DOMContentLoaded
  with assms show ?thesis by (simp add: step_def loadTasks_keeps)
qed (use assms in \<open>auto simp: step_def resetForm_def clearValidation_def
       handlePriorityFilterChange_def renderTaskList_def closeDeleteModal_def
       split: if_splits\<close>)

lemma delete_request_source:
  assumes "(req, a') \<in> set (fst (step rt (s, d) e r1 r2))" and "http_method req = ''DELETE''"
  shows "e = ModalConfirmClick \<and> (\<exists>i. pendingDeleteId s = Some i \<and> req = apiDeleteTask i)"
proof (cases e)
  case FormSubmit
  obtain po a0 where rf: "readForm rt (s, d) = (po, a0)"
    by (cases "readForm rt (s, d)") auto
  from assms FormSubmit rf show ?thesis
    by (cases po; cases "fetchJSON r1")
       (auto simp: step_def handleFormSubmit_def Let_def split_def fst_loadTasks
          split: option.splits if_splits)
next
  case (TaskListClick t)
  with assms show ?thesis
    by (cases t; cases "fetchJSON r1")
       (auto simp: step_def handleTaskListClick_def handleComplete_def Let_def split_def
          fst_loadTasks)
next
  case ModalConfirmClick
  with assms show ?thesis
    by (cases "fetchJSON r1")
       (auto simp: step_def confirmDelete_def Let_def split_def fst_loadTasks
          split: option.splits if_splits)
qed (use assms in \<open>auto simp: step_def fst_loadTasks\<close>)

text \<open>
  Claim C2. Whatever the event, a DELETE request among the requests it causes means the
  event was the click on the modal's confirm button, and the request is the delete request
  for the id pending at that moment. That id is the one \<open>openDeleteModal\<close> stored when Delete
  was clicked on a card: an event leaves an id pending only if it was pending before or the
  event is the Delete click for it. Cancelling sends nothing, leaves the snapshot and the
  list area as they were and clears the pending id, so that a later confirm sends nothing.
\<close>

theorem delete_only_on_confirm:
  "(\<forall>req a'. (req, a') \<in> set (fst (step rt a e r1 r2)) \<and> http_method req = ''DELETE'' \<longrightarrow>
       e = ModalConfirmClick
       \<and> (\<exists>i. pendingDeleteId (fst a) = Some i \<and> req = apiDeleteTask i))
   \<and> pendingDeleteId (fst (openDeleteModal i a)) = Some i
   \<and> step rt a (TaskListClick (DeleteBtn i)) r1 r2 = ([], openDeleteModal i a)
   \<and> (pendingDeleteId (fst (snd (step rt a e r1 r2))) = Some j \<longrightarrow>
        pendingDeleteId (fst a) = Some j \<or> e = TaskListClick (DeleteBtn j))
   \<and> step rt a ModalCancelClick r1 r2 = ([], closeDeleteModal a)
   \<and> tasks (fst (closeDeleteModal a)) = tasks (fst a)
   \<and> taskList (snd (closeDeleteModal a)) = taskList (snd a)
   \<and> pendingDeleteId (fst (closeDeleteModal a)) = None
   \<and> fst (confirmDelete rt (closeDeleteModal a) r1 r2) = []"
proof -
  obtain s d where a: "a = (s, d)" by (cases a)
  have 1: "e = ModalConfirmClick \<and> (\<exists>i. pendingDeleteId (fst a) = Some i \<and> req = apiDeleteTask i)"
    if "(req, a') \<in> set (fst (step rt a e r1 r2))" "http_method req = ''DELETE''" for req a'
    using that delete_request_source [of req a' rt s d e r1 r2] by (simp add: a)
  have 2: "pendingDeleteId (fst a) = Some j \<or> e = TaskListClick (DeleteBtn j)"
    if "pendingDeleteId (fst (snd (step rt a e r1 r2))) = Some j"
    using that pending_after_step [of rt s d e r1 r2 j] by (simp add: a)
  have 3: "fst (confirmDelete rt (closeDeleteModal a) r1 r2) = []"
    by (simp add: a confirmDelete_def closeDeleteModal_def)
  have 4: "pendingDeleteId (fst (openDeleteModal i a)) = Some i
     \<and> step rt a (TaskListClick (DeleteBtn i)) r1 r2 = ([], openDeleteModal i a)
     \<and> step rt a ModalCancelClick r1 r2 = ([], closeDeleteModal a)
     \<and> tasks (fst (closeDeleteModal a)) = tasks (fst a)
     \<and> taskList (snd (closeDeleteModal a)) = taskList (snd a)
     \<and> pendingDeleteId (fst (closeDeleteModal a)) = None"
    by (simp add: a step_def handleTaskListClick_def openDeleteModal_def closeDeleteModal_def)
  from 1 2 3 4 show ?thesis
    by blast
qed

theorem delete_only_on_confirm_witness:
  "pendingDeleteId (fst confirming5) = Some 5
   \<and> hd (fst deleting5) \<in> set (fst deleting5)
   \<and> http_method (fst (hd (fst deleting5))) = ''DELETE''
   \<and> fst (hd (fst deleting5)) = apiDeleteTask 5
   \<and> map fst (fst deleting5) = [apiDeleteTask 5, apiGetTasks ''all'' ''all'']
   \<and> step rt0 confirming5 ModalCancelClick failed_fetch failed_fetch
       = ([], closeDeleteModal confirming5)
   \<and> tasks (fst (closeDeleteModal confirming5)) = [task1, task2, task3, task4]
   \<and> fst (confirmDelete rt0 (closeDeleteModal confirming5) (Resolved ok_200) failed_fetch) = []"
proof -
  have p: "pendingDeleteId (fst confirming5) = Some 5" by code_simp
  have t: "tasks (fst confirming5) = [task1, task2, task3, task4]" by code_simp
  have rs: "map fst (fst deleting5) = [apiDeleteTask 5, apiGetTasks ''all'' ''all'']"
    by code_simp
  then have ne: "fst deleting5 \<noteq> []" by auto
  with rs have h: "fst (hd (fst deleting5)) = apiDeleteTask 5"
    by (cases "fst deleting5") auto
  have m: "(fst (hd (fst deleting5)), snd (hd (fst deleting5)))
           \<in> set (fst (step rt0 confirming5 ModalConfirmClick (Resolved ok_200)
                (Resolved (list_200 [task1, task2, task4]))))"
    using ne by (simp add: deleting5_def)
  have d: "http_method (fst (hd (fst deleting5))) = ''DELETE''"
    by (simp add: h)
  from delete_only_on_confirm [of rt0 confirming5 ModalConfirmClick "Resolved ok_200"
      "Resolved (list_200 [task1, task2, task4])" 5 5] m d
  have "\<exists>i. pendingDeleteId (fst confirming5) = Some i
            \<and> fst (hd (fst deleting5)) = apiDeleteTask i"
    by blast
  moreover
  from delete_only_on_confirm [of rt0 confirming5 ModalCancelClick failed_fetch failed_fetch 5 5]
  have "step rt0 confirming5 ModalCancelClick failed_fetch failed_fetch
          = ([], closeDeleteModal confirming5)
        \<and> tasks (fst (closeDeleteModal confirming5)) = tasks (fst confirming5)"
    by blast
  moreover
  from delete_only_on_confirm [of rt0 confirming5 ModalCancelClick "Resolved ok_200"
      failed_fetch 5 5]
  have "fst (confirmDelete rt0 (closeDeleteModal confirming5) (Resolved ok_200) failed_fetch) = []"
    by blast
  ultimately show ?thesis
    using p t rs ne h d by simp
qed



end
